theory Spec2Isabelle
  imports Complex_Main
begin

section \<open>Strings\<close>

text \<open>
  A JavaScript string is a sequence of UTF-16 code units. The model uses \<^typ>\<open>string\<close>:
  each \<^typ>\<open>char\<close> stands for one code unit, so the alphabet of the model is the code
  units below 256 (ASCII and Latin-1). Of the four line terminators that the regular
  expression atom \<^verbatim>\<open>.\<close> refuses (LF, CR, U+2028, U+2029) the two that exist in this
  alphabet are modelled.
\<close>

definition LF :: char where
  "LF = CHR 0x0A"

definition CR :: char where
  "CR = CHR 0x0D"

definition is_line_terminator :: "char \<Rightarrow> bool" where
  "is_line_terminator c = (c = LF \<or> c = CR)"

text \<open>\<^verbatim>\<open>s.startsWith(d)\<close>, used to test a literal of a pattern at a position.\<close>

definition startsWith :: "string \<Rightarrow> string \<Rightarrow> bool" where
  "startsWith d s = (take (length d) s = d)"

text \<open>\<^verbatim>\<open>text.replace(/c/g, r)\<close> for a pattern that is one literal character.\<close>

definition replaceChar :: "char \<Rightarrow> string \<Rightarrow> string \<Rightarrow> string" where
  "replaceChar c r s = concat (map (\<lambda>x. if x = c then r else [x]) s)"

section \<open>renderMarkup\<close>

text \<open>
  \<^verbatim>\<open>
  let safe = text.replace(/&/g, '&amp;').replace(/</g, '&lt;').replace(/>/g, '&gt;');
  \<close>
\<close>

definition escapeHtml :: "string \<Rightarrow> string" where
  "escapeHtml text =
     replaceChar (CHR ''>'') ''&gt;''
       (replaceChar (CHR ''<'') ''&lt;''
         (replaceChar (CHR ''&'') ''&amp;'' text))"

text \<open>
  \<^verbatim>\<open>safe.replace(/`([^`]+)`/g, '<code>$1</code>')\<close>.
  At a backquote the greedy class \<^verbatim>\<open>[^`]+\<close> takes the longest run of characters other
  than a backquote (line breaks included); the match succeeds when the run is not empty
  and a backquote follows it. After a match the scan resumes behind the closing backquote;
  where no match starts, the character is kept and the scan moves one position on.
\<close>

function inlineCode :: "string \<Rightarrow> string" where
  "inlineCode [] = []"
| "inlineCode (x # xs) =
     (if x = CHR 0x60 then
        (let run = takeWhile (\<lambda>c. c \<noteq> CHR 0x60) xs;
             rest = dropWhile (\<lambda>c. c \<noteq> CHR 0x60) xs
         in if run \<noteq> [] \<and> rest \<noteq> []
            then ''<code>'' @ run @ ''</code>'' @ inlineCode (tl rest)
            else x # inlineCode xs)
      else x # inlineCode xs)"
  by pat_completeness auto
termination
proof (relation "measure length")
  fix x :: char and xs run rest :: string
  assume "rest = dropWhile (\<lambda>c. c \<noteq> CHR 0x60) xs"
  then have "length rest \<le> length xs"
    by (simp add: length_dropWhile_le)
  then have "length (tl rest) < length (x # xs)"
    by simp
  then show "(tl rest, x # xs) \<in> measure length"
    by simp
qed simp_all

text \<open>
  The lazy group \<^verbatim>\<open>(.+?)\<close> followed by a closing literal \<^verbatim>\<open>d\<close>. The group takes one
  character that is not a line terminator; from then on, at each position, the closing
  literal is tried first, and only when it does not match the group takes one more
  character (again not a line terminator). The result is the captured text and the
  input behind the closing literal.
\<close>

fun lazyTail :: "string \<Rightarrow> string \<Rightarrow> (string \<times> string) option" where
  "lazyTail d [] = None"
| "lazyTail d (c # cs) =
     (if startsWith d (c # cs) then Some ([], drop (length d) (c # cs))
      else if is_line_terminator c then None
      else (case lazyTail d cs of
              None \<Rightarrow> None
            | Some (m, rest) \<Rightarrow> Some (c # m, rest)))"

fun lazyGroup :: "string \<Rightarrow> string \<Rightarrow> (string \<times> string) option" where
  "lazyGroup d [] = None"
| "lazyGroup d (c # cs) =
     (if is_line_terminator c then None
      else (case lazyTail d cs of
              None \<Rightarrow> None
            | Some (m, rest) \<Rightarrow> Some (c # m, rest)))"

text \<open>
  \<^verbatim>\<open>safe.replace(/d(.+?)d/g, open + '$1' + close)\<close> for a literal \<^verbatim>\<open>d\<close>: the pattern
  of bold (\<^verbatim>\<open>d = **\<close>) and of italic (\<^verbatim>\<open>d = _\<close>).
\<close>

function replaceDelimited :: "string \<Rightarrow> string \<Rightarrow> string \<Rightarrow> string \<Rightarrow> string" where
  "replaceDelimited d opn cls [] = []"
| "replaceDelimited d opn cls (x # xs) =
     (if startsWith d (x # xs) then
        (case lazyGroup d (drop (length d) (x # xs)) of
           Some (m, rest) \<Rightarrow> opn @ m @ cls @ replaceDelimited d opn cls rest
         | None \<Rightarrow> x # replaceDelimited d opn cls xs)
      else x # replaceDelimited d opn cls xs)"
  by pat_completeness auto
termination
proof (relation "measure (\<lambda>(d, opn, cls, s). length s)")
  fix d opn cls :: string and x :: char and xs m rest :: string and p
  assume found: "lazyGroup d (drop (length d) (x # xs)) = Some p" and p: "(m, rest) = p"
  have tail: "lazyTail d s = Some (m, rest) \<Longrightarrow> length rest \<le> length s" for s m rest
    by (induction d s arbitrary: m rest rule: lazyTail.induct)
       (auto split: if_splits option.splits)
  have "lazyGroup d s = Some (m, rest) \<Longrightarrow> length rest < length s" for s
    by (cases s) (auto split: if_splits option.splits dest: tail)
  from this [of "drop (length d) (x # xs)"] found p
  have "length rest < length (drop (length d) (x # xs))"
    by simp
  then show "((d, opn, cls, rest), (d, opn, cls, x # xs)) \<in> measure (\<lambda>(d, opn, cls, s). length s)"
    by simp
qed simp_all

text \<open>\<^verbatim>\<open>safe.replace(/\r?\n/g, '<br>')\<close>\<close>

fun lineBreaks :: "string \<Rightarrow> string" where
  "lineBreaks [] = []"
| "lineBreaks [c] = (if c = LF then ''<br>'' else [c])"
| "lineBreaks (c # e # cs) =
     (if c = CR \<and> e = LF then ''<br>'' @ lineBreaks cs
      else if c = LF then ''<br>'' @ lineBreaks (e # cs)
      else c # lineBreaks (e # cs))"

text \<open>
  \<^verbatim>\<open>
  function renderMarkup(text) {
    if (!text) return '';
    let safe = ... escape ...;
    safe = safe.replace(/`([^`]+)`/g, '<code>$1</code>');
    safe = safe.replace(/\*\*(.+?)\*\*/g, '<b>$1</b>');
    safe = safe.replace(/_(.+?)_/g, '<i>$1</i>');
    safe = safe.replace(/\r?\n/g, '<br>');
    return safe;
  }
  \<close>
\<close>

definition renderMarkup :: "string \<Rightarrow> string" where
  "renderMarkup text =
     (if text = [] then []
      else lineBreaks
             (replaceDelimited ''_'' ''<i>'' ''</i>''
               (replaceDelimited ''**'' ''<b>'' ''</b>''
                 (inlineCode (escapeHtml text)))))"


section \<open>Values received from the backend\<close>

text \<open>
  The optional text fields of the JSON bodies are \<^typ>\<open>string option\<close>: \<open>None\<close> is a field
  that is absent (or \<^verbatim>\<open>null\<close>), \<open>Some s\<close> a field holding the string \<open>s\<close>. The code tests
  such a field by its truthiness, and the empty string is falsy.
\<close>

fun truthy :: "string option \<Rightarrow> bool" where
  "truthy None = False"
| "truthy (Some s) = (s \<noteq> [])"

text \<open>
  The chain \<^verbatim>\<open>a || b || ... || d\<close> over optional strings whose last operand \<open>d\<close> is a
  literal: the first truthy operand, and \<open>d\<close> when there is none.
\<close>

fun firstTruthy :: "string option list \<Rightarrow> string \<Rightarrow> string" where
  "firstTruthy [] d = d"
| "firstTruthy (None # xs) d = firstTruthy xs d"
| "firstTruthy (Some s # xs) d = (if s \<noteq> [] then s else firstTruthy xs d)"

text \<open>
  An opaque structured value of a tool record (\<^verbatim>\<open>parameters\<close>, \<^verbatim>\<open>result\<close>): either
  a string, shown as it is, or any other value, which is carried as the text that
  \<^verbatim>\<open>JSON.stringify(v, null, 2)\<close> yields for it (\<^verbatim>\<open>String(v)\<close> when serialisation throws).
\<close>

datatype opaque = Textual string | Structured string

fun opaqueText :: "opaque \<Rightarrow> string" where
  "opaqueText (Textual s) = s"
| "opaqueText (Structured s) = s"

text \<open>
  A tool record, with the field names the code reads. Durations are JSON numbers; a
  finite number is modelled by its exact value as a rational.
\<close>

record tool_record =
  name :: "string option"
  tool_name :: "string option"
  tool :: "string option"
  status :: "string option"
  tool_status :: "string option"
  error :: "string option"
  duration_ms :: "rat option"
  execution_time_ms :: "rat option"
  started_at :: "string option"
  timestamp :: "string option"
  parameters :: "opaque option"
  tool_input :: "opaque option"
  result :: "opaque option"
  tool_output :: "opaque option"

text \<open>An entry of a \<^verbatim>\<open>messages\<close> array, of the chat response or of the history.\<close>

record message =
  msg_role :: "string option"
  msg_content :: "string option"
  msg_timestamp :: "string option"

text \<open>
  The body of \<^verbatim>\<open>POST /api/pen/chat\<close>. An array field is \<open>Some\<close> list when
  \<^verbatim>\<open>Array.isArray\<close> holds of it and \<open>None\<close> otherwise.
\<close>

record chat_data =
  resp_error :: "string option"
  resp_messages :: "message list option"
  resp_reply :: "string option"
  resp_tools :: "tool_record list option"

text \<open>The body of \<^verbatim>\<open>GET /api/pen/history\<close>.\<close>

record history_data =
  hist_messages :: "message list option"
  hist_tool_interactions :: "tool_record list option"

text \<open>The body of \<^verbatim>\<open>POST /api/pen/sleep\<close>.\<close>

record sleep_data =
  sleep_status :: "string option"
  sleep_message :: "string option"

text \<open>The body of \<^verbatim>\<open>GET /api/pen/models\<close>.\<close>

record model_entry =
  model_id :: string
  model_provider :: string
  model_display_name :: string

record models_data =
  models :: "model_entry list option"
  default_model :: "string option"

text \<open>
  How an awaited \<^verbatim>\<open>fetch\<close> followed by \<^verbatim>\<open>res.json()\<close> ends: the fetch rejects
  (\<open>NetworkFailure\<close> with the message of the error), or it resolves with a status code
  and a body that fails to parse (\<open>ParseFailure\<close>) or parses (\<open>Json\<close>).
\<close>

datatype 'a parsed = ParseFailure string | Json 'a

datatype 'a fetched = NetworkFailure string | Response nat "'a parsed"

text \<open>\<^verbatim>\<open>res.ok\<close>: the status is in the range 200 to 299.\<close>

definition res_ok :: "nat \<Rightarrow> bool" where
  "res_ok st = (200 \<le> st \<and> st \<le> 299)"

section \<open>Numbers and text helpers\<close>

text \<open>
  \<^verbatim>\<open>Math.round\<close>: the nearest integer, a tie going towards plus infinity.
\<close>

definition Math_round :: "rat \<Rightarrow> int" where
  "Math_round x = \<lfloor>x + 1 / 2\<rfloor>"

text \<open>
  The decimal text of an integer, as a template literal prints an integral number
  (JavaScript prints magnitudes from \<open>10\<^sup>2\<^sup>1\<close> on in exponent notation; the model
  prints every integer in plain decimal).
\<close>

definition digitChar :: "nat \<Rightarrow> char" where
  "digitChar n = ''0123456789'' ! (n mod 10)"

fun natToString :: "nat \<Rightarrow> string" where
  "natToString n = (if n < 10 then [digitChar n] else natToString (n div 10) @ [digitChar (n mod 10)])"

declare natToString.simps [simp del]

definition numberToString :: "int \<Rightarrow> string" where
  "numberToString i = (if i < 0 then CHR ''-'' # natToString (nat (- i)) else natToString (nat i))"

text \<open>\<^verbatim>\<open>parts.join(sep)\<close>\<close>

fun join :: "string \<Rightarrow> string list \<Rightarrow> string" where
  "join sep [] = []"
| "join sep [p] = p"
| "join sep (p # q # ps) = p @ sep @ join sep (q # ps)"

text \<open>
  \<^verbatim>\<open>toLowerCase\<close> on the alphabet of the model: the letters A to Z and the Latin-1
  capitals (0xC0 to 0xDE without the multiplication sign 0xD7) are replaced by their
  small letters, 32 positions up; every other character is kept.
\<close>

definition upperLetters :: string where
  "upperLetters = ''ABCDEFGHIJKLMNOPQRSTUVWXYZ'' @
       [CHR 0xC0, CHR 0xC1, CHR 0xC2, CHR 0xC3, CHR 0xC4, CHR 0xC5, CHR 0xC6, CHR 0xC7,
        CHR 0xC8, CHR 0xC9, CHR 0xCA, CHR 0xCB, CHR 0xCC, CHR 0xCD, CHR 0xCE, CHR 0xCF,
        CHR 0xD0, CHR 0xD1, CHR 0xD2, CHR 0xD3, CHR 0xD4, CHR 0xD5, CHR 0xD6, CHR 0xD8,
        CHR 0xD9, CHR 0xDA, CHR 0xDB, CHR 0xDC, CHR 0xDD, CHR 0xDE]"

definition lowerLetters :: string where
  "lowerLetters = ''abcdefghijklmnopqrstuvwxyz'' @
       [CHR 0xE0, CHR 0xE1, CHR 0xE2, CHR 0xE3, CHR 0xE4, CHR 0xE5, CHR 0xE6, CHR 0xE7,
        CHR 0xE8, CHR 0xE9, CHR 0xEA, CHR 0xEB, CHR 0xEC, CHR 0xED, CHR 0xEE, CHR 0xEF,
        CHR 0xF0, CHR 0xF1, CHR 0xF2, CHR 0xF3, CHR 0xF4, CHR 0xF5, CHR 0xF6, CHR 0xF8,
        CHR 0xF9, CHR 0xFA, CHR 0xFB, CHR 0xFC, CHR 0xFD, CHR 0xFE]"

definition lowerChar :: "char \<Rightarrow> char" where
  "lowerChar c = (case map_of (zip upperLetters lowerLetters) c of Some l \<Rightarrow> l | None \<Rightarrow> c)"

definition toLowerCase :: "string \<Rightarrow> string" where
  "toLowerCase s = map lowerChar s"

text \<open>
  \<^verbatim>\<open>trim\<close>: white space and line terminators are removed at both ends (in the
  alphabet of the model: TAB, LF, VT, FF, CR, space and the no-break space 0xA0).
\<close>

definition isWhiteSpace :: "char \<Rightarrow> bool" where
  "isWhiteSpace c = (c \<in> set [CHR 0x09, CHR 0x0A, CHR 0x0B, CHR 0x0C, CHR 0x0D, CHR 0x20, CHR 0xA0])"

definition trim :: "string \<Rightarrow> string" where
  "trim s = rev (dropWhile isWhiteSpace (rev (dropWhile isWhiteSpace s)))"


section \<open>The page\<close>

text \<open>
  The document is modelled by the elements that \<^verbatim>\<open>initializeElements\<close> looks up, all
  of which are taken to exist (the guards \<^verbatim>\<open>if (els.x)\<close> are passed), and by the
  children of the two containers. The scroll position depends on the layout and is
  not part of the model, so \<^verbatim>\<open>scrollToBottom\<close> leaves the state as it is.
\<close>

text \<open>
  A message bubble: the class of the element, the avatar letter, the name in the header,
  the timestamp passed in the options (\<open>None\<close> for the default, the current time), the
  \<^verbatim>\<open>innerHTML\<close> of the body and the original content that the copy button copies.
\<close>

record bubble =
  className :: string
  avatar :: string
  who :: string
  time :: "string option"
  body :: string
  copyText :: string

text \<open>
  The children of \<^verbatim>\<open>messagesContent\<close>: the welcome placeholder, message bubbles and
  the typing placeholder (the element with id \<^verbatim>\<open>typingIndicator\<close>).
\<close>

datatype node = Welcome | Bubble bubble | Typing

text \<open>
  A tool card: name, class and label of the status element, the optional metadata line,
  the detail blocks (title and text) and the \<^verbatim>\<open>style.display\<close> of the container of
  the detail blocks.
\<close>

record tool_card =
  card_name :: string
  status_class :: string
  status_label :: string
  meta :: "string option"
  details :: "(string \<times> string) list"
  details_display :: string

text \<open>The children of \<^verbatim>\<open>toolsBody\<close>: the empty-state element or tool cards.\<close>

datatype panel_node = ToolsEmpty | Card tool_card

text \<open>The requests that the client sends, in the order of sending.\<close>

datatype request =
    ChatRequest string bool string
  | HistoryRequest
  | ResetRequest
  | SleepRequest
  | ModelsRequest

text \<open>
  The state: the global variables of the script, the modelled part of the document, the
  log of the requests sent, and \<open>inFlight\<close>, the number of chat requests sent whose
  \<^verbatim>\<open>sendMessage\<close> call is still suspended at its \<^verbatim>\<open>await\<close>.
\<close>

record page =
  isSending :: bool
  showToolOutput :: bool
  expandAllTools :: bool
  selectedModel :: string
  messagesContent :: "node list"
  welcomeDisplay :: string
  toolsBody :: "panel_node list"
  toolsEmptyDisplay :: string
  inputValue :: string
  inputDisabled :: bool
  inputFocused :: bool
  sendDisabled :: bool
  toggleActive :: bool
  toggleTitle :: string
  sleepDisabled :: bool
  sleepBusy :: bool
  requests :: "request list"
  inFlight :: nat

text \<open>
  Modelled from the spec: the static page (index.html) is not among the sources. The
  globals are initialised as the script does; the document starts as \<^verbatim>\<open>resetChatUI\<close>
  rebuilds it, with the welcome placeholder visible and the tool panel showing its
  empty-state element, an empty enabled input and the toggle not marked active.
\<close>

definition initialPage :: page where
  "initialPage =
     \<lparr> isSending = False, showToolOutput = True, expandAllTools = False,
       selectedModel = ''gemini-2.5-flash'',
       messagesContent = [Welcome], welcomeDisplay = [],
       toolsBody = [ToolsEmpty], toolsEmptyDisplay = ''block'',
       inputValue = [], inputDisabled = False, inputFocused = False, sendDisabled = False,
       toggleActive = False, toggleTitle = [],
       sleepDisabled = False, sleepBusy = False,
       requests = [], inFlight = 0 \<rparr>"

section \<open>Conversation view\<close>

text \<open>
  \<^verbatim>\<open>
  function appendMessage(role, content, options = {}) {
    const { timestamp = new Date().toISOString(), animate = true } = options;
    if (role === "user" && els.welcomeMessage) els.welcomeMessage.style.display = "none";
    ...
    avatar.textContent = role === "user" ? "S" : role === "assistant" ? "P" : "!";
    const who = role === "user" ? "You" : role === "assistant" ? "PEN" : "System";
    ...
    body.innerHTML = renderMarkup(content);
    ...
    els.messagesContent.appendChild(msg);
    scrollToBottom();
  }
  \<close>
\<close>

definition makeBubble :: "string \<Rightarrow> string \<Rightarrow> string option \<Rightarrow> bubble" where
  "makeBubble role content ts =
     \<lparr> className = ''message '' @ role,
       avatar = (if role = ''user'' then ''S'' else if role = ''assistant'' then ''P'' else ''!''),
       who = (if role = ''user'' then ''You'' else if role = ''assistant'' then ''PEN'' else ''System''),
       time = ts,
       body = renderMarkup content,
       copyText = content \<rparr>"

definition appendMessage :: "string \<Rightarrow> string \<Rightarrow> string option \<Rightarrow> page \<Rightarrow> page" where
  "appendMessage role content ts s =
     s\<lparr> welcomeDisplay := (if role = ''user'' then ''none'' else welcomeDisplay s),
        messagesContent := messagesContent s @ [Bubble (makeBubble role content ts)] \<rparr>"

text \<open>
  \<^verbatim>\<open>
  function showTyping() {
    if (document.getElementById("typingIndicator")) return;
    ...
    els.messagesContent.appendChild(div);
    scrollToBottom();
  }
  function hideTyping() {
    const el = document.getElementById("typingIndicator");
    if (el) el.remove();
  }
  \<close>
  Only \<open>showTyping\<close> creates an element with that id, and only inside
  \<^verbatim>\<open>messagesContent\<close>, so the lookup by id is a search of its children.
\<close>

definition showTyping :: "page \<Rightarrow> page" where
  "showTyping s =
     (if Typing \<in> set (messagesContent s) then s
      else s\<lparr> messagesContent := messagesContent s @ [Typing] \<rparr>)"

definition hideTyping :: "page \<Rightarrow> page" where
  "hideTyping s =
     (if Typing \<in> set (messagesContent s)
      then s\<lparr> messagesContent := remove1 Typing (messagesContent s) \<rparr>
      else s)"

text \<open>
  \<^verbatim>\<open>
  function resetChatUI() {
    els.messagesContent.innerHTML = "";
    if (els.welcomeMessage) {
      els.messagesContent.appendChild(els.welcomeMessage);
      els.welcomeMessage.style.display = "";
    }
    if (els.toolsBody) {
      els.toolsBody.innerHTML = "";
      if (els.toolsEmpty) {
        els.toolsEmpty.style.display = "block";
        els.toolsBody.appendChild(els.toolsEmpty);
      }
    }
  }
  \<close>
\<close>

definition resetChatUI :: "page \<Rightarrow> page" where
  "resetChatUI s =
     s\<lparr> messagesContent := [Welcome], welcomeDisplay := [],
        toolsBody := [ToolsEmpty], toolsEmptyDisplay := ''block'' \<rparr>"


section \<open>Tool trace panel\<close>

text \<open>
  \<^verbatim>\<open>
  const st = (
    (tool.status || tool.tool_status || (tool.error ? "failed" : "completed") || "")
  ).toLowerCase();
  status.classList.add(st || "running");
  status.textContent =
    st === "completed" ? "Completed" : st === "failed" ? "Failed" : "Running";
  \<close>
\<close>

definition toolStatus :: "tool_record \<Rightarrow> string" where
  "toolStatus t =
     toLowerCase
       (firstTruthy
          [status t, tool_status t, Some (if truthy (error t) then ''failed'' else ''completed'')]
          [])"

definition statusLabel :: "string \<Rightarrow> string" where
  "statusLabel st =
     (if st = ''completed'' then ''Completed''
      else if st = ''failed'' then ''Failed''
      else ''Running'')"

text \<open>
  \<^verbatim>\<open>
  const parts = [];
  const duration = tool.duration_ms ?? tool.execution_time_ms;
  if (duration != null) parts.push(`${Math.round(duration)} ms`);
  if (tool.started_at) parts.push(tool.started_at);
  else if (tool.timestamp) parts.push(tool.timestamp);
  if (parts.length) meta.textContent = parts.join(" \<cdot> ");
  ...
  if (parts.length) item.appendChild(meta);
  \<close>
  The separator (printed here with \<open>\<cdot>\<close>) is a space, the middle dot U+00B7 and a space.
\<close>

definition middleDot :: string where
  "middleDot = [CHR '' '', CHR 0xB7, CHR '' '']"

definition toolDuration :: "tool_record \<Rightarrow> rat option" where
  "toolDuration t = (case duration_ms t of Some d \<Rightarrow> Some d | None \<Rightarrow> execution_time_ms t)"

definition metaParts :: "tool_record \<Rightarrow> string list" where
  "metaParts t =
     (case toolDuration t of
        Some d \<Rightarrow> [numberToString (Math_round d) @ '' ms'']
      | None \<Rightarrow> []) @
     (if truthy (started_at t) then [firstTruthy [started_at t] []]
      else if truthy (timestamp t) then [firstTruthy [timestamp t] []]
      else [])"

definition toolMeta :: "tool_record \<Rightarrow> string option" where
  "toolMeta t = (if metaParts t \<noteq> [] then Some (join middleDot (metaParts t)) else None)"

text \<open>
  \<^verbatim>\<open>
  const paramsData = tool.parameters ?? tool.tool_input;
  if (paramsData != null) { ... title.textContent = "Parameters"; pre.textContent = ... }
  const resultData = tool.result ?? tool.tool_output;
  if (resultData != null) { ... title.textContent = "Result"; pre.textContent = ... }
  \<close>
\<close>

definition nullish :: "'a option \<Rightarrow> 'a option \<Rightarrow> 'a option" where
  "nullish a b = (case a of Some x \<Rightarrow> Some x | None \<Rightarrow> b)"

definition toolDetails :: "tool_record \<Rightarrow> (string \<times> string) list" where
  "toolDetails t =
     (case nullish (parameters t) (tool_input t) of
        Some v \<Rightarrow> [(''Parameters'', opaqueText v)]
      | None \<Rightarrow> []) @
     (case nullish (result t) (tool_output t) of
        Some v \<Rightarrow> [(''Result'', opaqueText v)]
      | None \<Rightarrow> [])"

text \<open>
  The card that the body of \<^verbatim>\<open>tools.forEach\<close> builds for one record; \<open>expand\<close> is the
  value of the global \<^verbatim>\<open>expandAllTools\<close> at that moment.
\<close>

definition renderTool :: "bool \<Rightarrow> tool_record \<Rightarrow> tool_card" where
  "renderTool expand t =
     \<lparr> card_name = firstTruthy [name t, tool_name t, tool t] ''tool'',
       status_class = (if toolStatus t \<noteq> [] then toolStatus t else ''running''),
       status_label = statusLabel (toolStatus t),
       meta = toolMeta t,
       details = toolDetails t,
       details_display = (if expand then ''block'' else ''none'') \<rparr>"

text \<open>
  \<^verbatim>\<open>
  function updateTools(tools) {
    if (!els.toolsBody || !Array.isArray(tools)) return;
    els.toolsBody.innerHTML = "";
    if (tools.length === 0) {
      if (els.toolsEmpty) {
        els.toolsEmpty.style.display = "block";
        els.toolsBody.appendChild(els.toolsEmpty);
      }
      return;
    }
    if (els.toolsEmpty) els.toolsEmpty.style.display = "none";
    tools.forEach((tool) => { ... els.toolsBody.appendChild(item); });
  }
  \<close>
  The argument is a list, so \<^verbatim>\<open>Array.isArray(tools)\<close> holds.
\<close>

definition updateTools :: "tool_record list \<Rightarrow> page \<Rightarrow> page" where
  "updateTools tools s =
     (if tools = []
      then s\<lparr> toolsBody := [ToolsEmpty], toolsEmptyDisplay := ''block'' \<rparr>
      else s\<lparr> toolsEmptyDisplay := ''none'',
              toolsBody := map (\<lambda>t. Card (renderTool (expandAllTools s) t)) tools \<rparr>)"

text \<open>
  The click handler of one card (\<open>i\<close> is its position among the children of the panel):
  \<^verbatim>\<open>
  const isHidden = detailsContainer.style.display === "none";
  detailsContainer.style.display = isHidden ? "block" : "none";
  \<close>
\<close>

fun toggleDetails :: "panel_node \<Rightarrow> panel_node" where
  "toggleDetails ToolsEmpty = ToolsEmpty"
| "toggleDetails (Card c) =
     Card (c\<lparr> details_display := (if details_display c = ''none'' then ''block'' else ''none'') \<rparr>)"

definition cardClicked :: "nat \<Rightarrow> page \<Rightarrow> page" where
  "cardClicked i s =
     (if i < length (toolsBody s)
      then s\<lparr> toolsBody := (toolsBody s)[i := toggleDetails (toolsBody s ! i)] \<rparr>
      else s)"

text \<open>
  The click handler of the tool-output toggle:
  \<^verbatim>\<open>
  showToolOutput = !showToolOutput;
  expandAllTools = showToolOutput;
  els.toolOutputToggle.classList.toggle("active", expandAllTools);
  els.toolOutputToggle.title = expandAllTools ? "Hide details" : "Show details";
  const containers = els.toolsBody?.querySelectorAll('.tool-details-container');
  if (containers) containers.forEach((el) => { el.style.display = expandAllTools ? 'block' : 'none'; });
  \<close>
\<close>

fun setDetails :: "bool \<Rightarrow> panel_node \<Rightarrow> panel_node" where
  "setDetails e ToolsEmpty = ToolsEmpty"
| "setDetails e (Card c) = Card (c\<lparr> details_display := (if e then ''block'' else ''none'') \<rparr>)"

definition toggleClicked :: "page \<Rightarrow> page" where
  "toggleClicked s =
     (let shown = \<not> showToolOutput s
      in s\<lparr> showToolOutput := shown,
              expandAllTools := shown,
              toggleActive := shown,
              toggleTitle := (if shown then ''Hide details'' else ''Show details''),
              toolsBody := map (setDetails shown) (toolsBody s) \<rparr>)"


section \<open>Session controller\<close>

text \<open>
  An \<^verbatim>\<open>async\<close> function runs up to its first \<^verbatim>\<open>await\<close> when it is called and the
  rest when the awaited promise settles; other handlers run in between. Each such
  function is therefore two state transformers: the call, and the resumption with the
  outcome of the request. Between the response and the parsed body (\<^verbatim>\<open>await res.json()\<close>)
  the function changes nothing, so the two awaits are one resumption.
\<close>

text \<open>
  \<^verbatim>\<open>
  async function sendMessage() {
    if (isSending) return;
    const text = els.messageInput.value.trim();
    if (!text) return;
    isSending = true;
    els.messageInput.value = "";
    els.messageInput.disabled = true;
    els.sendBtn.disabled = true;
    appendMessage("user", text);
    showTyping();
    try {
      const url = new URL(`${API_BASE}/api/pen/chat`);
      url.searchParams.append("show_tool_output", showToolOutput);
      url.searchParams.append("model", selectedModel);
      const res = await fetch(url.toString(), { method: "POST", ..., body: JSON.stringify({ message: text }) });
  \<close>
\<close>

definition sendMessage :: "page \<Rightarrow> page" where
  "sendMessage s =
     (if isSending s then s
      else let text = trim (inputValue s)
        in if text = [] then s
           else let s1 = s\<lparr> isSending := True, inputValue := [],
                              inputDisabled := True, sendDisabled := True \<rparr>;
                    s2 = showTyping (appendMessage ''user'' text None s1)
                in s2\<lparr> requests := requests s2 @ [ChatRequest text (showToolOutput s2) (selectedModel s2)],
                       inFlight := Suc (inFlight s2) \<rparr>)"

text \<open>
  \<^verbatim>\<open>
  data.messages.forEach((m) => {
    if (m.role === "assistant" || m.role === "model") appendMessage("assistant", m.content || "");
  });
  \<close>
\<close>

definition appendAssistant :: "page \<Rightarrow> message \<Rightarrow> page" where
  "appendAssistant s m =
     (if msg_role m = Some ''assistant'' \<or> msg_role m = Some ''model''
      then appendMessage ''assistant'' (firstTruthy [msg_content m] []) None s
      else s)"

text \<open>
  The \<^verbatim>\<open>try\<close> block after a parsed body:
  \<^verbatim>\<open>
  hideTyping();
  if (data.error) {
    appendMessage("system", data.error);
  } else {
    if (Array.isArray(data.messages)) { data.messages.forEach(...) }
    else if (data.reply) { appendMessage("assistant", data.reply); }
    if (Array.isArray(data.tools)) { updateTools(data.tools); }
  }
  \<close>
\<close>

definition chatReceived :: "chat_data \<Rightarrow> page \<Rightarrow> page" where
  "chatReceived d s0 =
     (let s = hideTyping s0
      in if truthy (resp_error d)
         then appendMessage ''system'' (firstTruthy [resp_error d] []) None s
         else let s1 = (case resp_messages d of
                          Some ms \<Rightarrow> foldl appendAssistant s ms
                        | None \<Rightarrow>
                            if truthy (resp_reply d)
                            then appendMessage ''assistant'' (firstTruthy [resp_reply d] []) None s
                            else s)
              in (case resp_tools d of
                    Some ts \<Rightarrow> updateTools ts s1
                  | None \<Rightarrow> s1))"

text \<open>
  \<^verbatim>\<open>
  } catch (err) {
    hideTyping();
    appendMessage("system", `Connection error: ${err.message}`);
  } finally {
    isSending = false;
    els.messageInput.disabled = false;
    els.sendBtn.disabled = false;
    els.messageInput.focus();
  }
  \<close>
\<close>

definition chatFailed :: "string \<Rightarrow> page \<Rightarrow> page" where
  "chatFailed msg s = appendMessage ''system'' (''Connection error: '' @ msg) None (hideTyping s)"

definition chatFinally :: "page \<Rightarrow> page" where
  "chatFinally s =
     s\<lparr> isSending := False, inputDisabled := False, sendDisabled := False, inputFocused := True \<rparr>"

text \<open>
  The resumption of \<open>sendMessage\<close>. A status outside 200 to 299 throws
  \<^verbatim>\<open>new Error(`Server error: ${res.status}`)\<close> into the \<^verbatim>\<open>catch\<close> block, as a
  rejected fetch and an unparsable body throw their own errors.
\<close>

definition sendMessageResumed :: "chat_data fetched \<Rightarrow> page \<Rightarrow> page" where
  "sendMessageResumed r s =
     (let s' = (case r of
                  NetworkFailure msg \<Rightarrow> chatFailed msg s
                | Response st b \<Rightarrow>
                    if \<not> res_ok st then chatFailed (''Server error: '' @ natToString st) s
                    else (case b of
                            ParseFailure msg \<Rightarrow> chatFailed msg s
                          | Json d \<Rightarrow> chatReceived d s))
      in (chatFinally s')\<lparr> inFlight := inFlight s' - 1 \<rparr>)"

text \<open>
  \<^verbatim>\<open>
  async function loadChatHistory() {
    try {
      const res = await fetch(`${API_BASE}/api/pen/history`);
      if (!res.ok) throw new Error(`Failed to load history: ${res.status}`);
      const data = await res.json();
      const messages = data.messages || [];
      if (messages.length > 0) {
        if (els.welcomeMessage) els.welcomeMessage.style.display = "none";
        messages.forEach((msg) => {
          const role = msg.role || "user";
          const content = msg.content || "";
          const timestamp = msg.timestamp || new Date().toISOString();
          appendMessage(role, content, { timestamp, animate: false });
        });
        const tools = data.tool_interactions || [];
        if (tools.length > 0) updateTools(tools);
        setTimeout(() => scrollToBottom(), 100);
      }
    } catch (err) { console.error(...); }
  }
  \<close>
  The console is not part of the model.
\<close>

definition loadChatHistory :: "page \<Rightarrow> page" where
  "loadChatHistory s = s\<lparr> requests := requests s @ [HistoryRequest] \<rparr>"

definition appendHistory :: "page \<Rightarrow> message \<Rightarrow> page" where
  "appendHistory s m =
     appendMessage (firstTruthy [msg_role m] ''user'') (firstTruthy [msg_content m] [])
       (if truthy (msg_timestamp m) then msg_timestamp m else None) s"

definition historyReceived :: "history_data \<Rightarrow> page \<Rightarrow> page" where
  "historyReceived d s =
     (let messages = (case hist_messages d of Some ms \<Rightarrow> ms | None \<Rightarrow> [])
      in if length messages > 0
         then let s1 = foldl appendHistory (s\<lparr> welcomeDisplay := ''none'' \<rparr>) messages;
                  tools = (case hist_tool_interactions d of Some ts \<Rightarrow> ts | None \<Rightarrow> [])
              in if length tools > 0 then updateTools tools s1 else s1
         else s)"

definition loadChatHistoryResumed :: "history_data fetched \<Rightarrow> page \<Rightarrow> page" where
  "loadChatHistoryResumed r s =
     (case r of
        NetworkFailure msg \<Rightarrow> s
      | Response st b \<Rightarrow>
          if \<not> res_ok st then s
          else (case b of ParseFailure msg \<Rightarrow> s | Json d \<Rightarrow> historyReceived d s))"


text \<open>
  The click handler of the reset button; \<open>confirmed\<close> is the answer to \<^verbatim>\<open>confirm(...)\<close>.
  The answer of the backend is ignored.
  \<^verbatim>\<open>
  if (confirm("Are you sure you want to clear the chat? ...")) {
    resetChatUI();
    try { await fetch(`${API_BASE}/api/pen/reset`, { method: "POST" }); } catch { }
  }
  \<close>
\<close>

definition resetClicked :: "bool \<Rightarrow> page \<Rightarrow> page" where
  "resetClicked confirmed s =
     (if confirmed
      then let s1 = resetChatUI s in s1\<lparr> requests := requests s1 @ [ResetRequest] \<rparr>
      else s)"

text \<open>
  The click handler of the sleep button, up to its \<^verbatim>\<open>await\<close>:
  \<^verbatim>\<open>
  if (confirm("Are you sure you want to start the sleep cycle? ...")) {
    els.sleepBtn.disabled = true;
    els.sleepBtn.innerHTML = '<i class="fas fa-spinner fa-spin"></i>';
    appendMessage("system", "Starting sleep cycle...");
    try {
      const res = await fetch(`${API_BASE}/api/pen/sleep`, { method: "POST" });
  \<close>
\<close>

definition sleepClicked :: "bool \<Rightarrow> page \<Rightarrow> page" where
  "sleepClicked confirmed s =
     (if confirmed
      then let s1 = appendMessage ''system'' ''Starting sleep cycle...'' None
                      (s\<lparr> sleepDisabled := True, sleepBusy := True \<rparr>)
           in s1\<lparr> requests := requests s1 @ [SleepRequest] \<rparr>
      else s)"

text \<open>
  Its resumption; the reload that a success schedules with \<^verbatim>\<open>setTimeout\<close> is the
  separate step \<open>sleepReload\<close>.
  \<^verbatim>\<open>
      if (!res.ok) throw new Error(`Failed to start sleep: ${res.status}`);
      const data = await res.json();
      if (data.status === "success") {
        appendMessage("system", "Sleep cycle completed successfully! Memory updates have been made.");
        setTimeout(() => { resetChatUI(); loadChatHistory(); }, 1000);
      } else {
        appendMessage("system", `Sleep error: ${data.message || "Unknown error"}`);
      }
    } catch (err) {
      appendMessage("system", `Failed to start sleep: ${err.message}`);
    } finally {
      els.sleepBtn.disabled = false;
      els.sleepBtn.innerHTML = '<i class="fas fa-moon"></i>';
    }
  \<close>
\<close>

definition sleepFailed :: "string \<Rightarrow> page \<Rightarrow> page" where
  "sleepFailed msg s = appendMessage ''system'' (''Failed to start sleep: '' @ msg) None s"

definition sleepResumed :: "sleep_data fetched \<Rightarrow> page \<Rightarrow> page" where
  "sleepResumed r s =
     (let s' = (case r of
                  NetworkFailure msg \<Rightarrow> sleepFailed msg s
                | Response st b \<Rightarrow>
                    if \<not> res_ok st then sleepFailed (''Failed to start sleep: '' @ natToString st) s
                    else (case b of
                            ParseFailure msg \<Rightarrow> sleepFailed msg s
                          | Json d \<Rightarrow>
                              if sleep_status d = Some ''success''
                              then appendMessage ''system''
                                     ''Sleep cycle completed successfully! Memory updates have been made.''
                                     None s
                              else appendMessage ''system''
                                     (''Sleep error: '' @ firstTruthy [sleep_message d] ''Unknown error'')
                                     None s))
      in s'\<lparr> sleepDisabled := False, sleepBusy := False \<rparr>)"

definition sleepReload :: "page \<Rightarrow> page" where
  "sleepReload s = loadChatHistory (resetChatUI s)"

text \<open>
  \<open>loadAvailableModels\<close>, as far as the state of the model goes: the selector element
  is not modelled, the global \<^verbatim>\<open>selectedModel\<close> is.
  \<^verbatim>\<open>
  const models = data.models || [];
  const defaultModel = data.default || "gemini-2.5-flash";
  ...
  if (model.id === defaultModel) { option.selected = true; selectedModel = model.id; }
  \<close>
  and the change handler of the selector:
  \<^verbatim>\<open>
  selectedModel = e.target.value;
  appendMessage("system", `Model changed to: ${e.target.options[e.target.selectedIndex].text}`);
  \<close>
\<close>

definition loadAvailableModels :: "page \<Rightarrow> page" where
  "loadAvailableModels s = s\<lparr> requests := requests s @ [ModelsRequest] \<rparr>"

definition loadAvailableModelsResumed :: "models_data fetched \<Rightarrow> page \<Rightarrow> page" where
  "loadAvailableModelsResumed r s =
     (case r of
        NetworkFailure msg \<Rightarrow> s
      | Response st b \<Rightarrow>
          if \<not> res_ok st then s
          else (case b of
                  ParseFailure msg \<Rightarrow> s
                | Json d \<Rightarrow>
                    let ms = (case models d of Some ms \<Rightarrow> ms | None \<Rightarrow> []);
                        defaultModel = firstTruthy [default_model d] ''gemini-2.5-flash''
                    in if defaultModel \<in> set (map model_id ms)
                       then s\<lparr> selectedModel := defaultModel \<rparr>
                       else s))"

definition modelChanged :: "string \<Rightarrow> string \<Rightarrow> page \<Rightarrow> page" where
  "modelChanged v label s =
     appendMessage ''system'' (''Model changed to: '' @ label) None (s\<lparr> selectedModel := v \<rparr>)"

section \<open>Events\<close>

text \<open>
  What can happen to the page: the user acts, or an awaited request settles. A chat
  outcome is delivered only while a chat request is in flight; the other outcomes and the
  timer are allowed at any moment, which only adds behaviours. A suggestion chip writes
  its text into the input and calls \<open>sendMessage\<close>; typing changes the input only
  while it is enabled.
\<close>

datatype event =
    SendClicked
  | ChipClicked string
  | InputTyped string
  | InputBlurred
  | ChatSettled "chat_data fetched"
  | ToggleClicked
  | CardClicked nat
  | ResetClicked bool
  | SleepClicked bool
  | SleepSettled "sleep_data fetched"
  | SleepReloadTimer
  | HistoryLoadStarted
  | HistorySettled "history_data fetched"
  | ModelsLoadStarted
  | ModelsSettled "models_data fetched"
  | ModelChanged string string

fun step :: "page \<Rightarrow> event \<Rightarrow> page" where
  "step s SendClicked = sendMessage s"
| "step s (ChipClicked text) = sendMessage (s\<lparr> inputValue := text \<rparr>)"
| "step s (InputTyped text) = (if inputDisabled s then s else s\<lparr> inputValue := text \<rparr>)"
| "step s InputBlurred = s\<lparr> inputFocused := False \<rparr>"
| "step s (ChatSettled r) = (if inFlight s = 0 then s else sendMessageResumed r s)"
| "step s ToggleClicked = toggleClicked s"
| "step s (CardClicked i) = cardClicked i s"
| "step s (ResetClicked confirmed) = resetClicked confirmed s"
| "step s (SleepClicked confirmed) = sleepClicked confirmed s"
| "step s (SleepSettled r) = sleepResumed r s"
| "step s SleepReloadTimer = sleepReload s"
| "step s HistoryLoadStarted = loadChatHistory s"
| "step s (HistorySettled r) = loadChatHistoryResumed r s"
| "step s ModelsLoadStarted = loadAvailableModels s"
| "step s (ModelsSettled r) = loadAvailableModelsResumed r s"
| "step s (ModelChanged v label) = modelChanged v label s"

definition run :: "event list \<Rightarrow> page \<Rightarrow> page" where
  "run evs s = foldl step s evs"

text \<open>The operations of the two views, for sequences of calls.\<close>

datatype view_op =
    Append string string "string option"
  | ShowTyping
  | HideTyping
  | Render "tool_record list"
  | Reset

fun apply_op :: "page \<Rightarrow> view_op \<Rightarrow> page" where
  "apply_op s (Append role content ts) = appendMessage role content ts s"
| "apply_op s ShowTyping = showTyping s"
| "apply_op s HideTyping = hideTyping s"
| "apply_op s (Render tools) = updateTools tools s"
| "apply_op s Reset = resetChatUI s"

definition apply_ops :: "view_op list \<Rightarrow> page \<Rightarrow> page" where
  "apply_ops ops s = foldl apply_op s ops"

section \<open>Notions used in the statements\<close>

text \<open>
  The tags that the formatting substitutions of \<open>renderMarkup\<close> write. A text satisfies
  \<open>onlyFormatTags\<close> when it is made of characters other than the angle brackets and of
  these tags: every \<^verbatim>\<open><\<close> in it opens one of them, every \<^verbatim>\<open>>\<close> closes one.
\<close>

definition formatTags :: "string list" where
  "formatTags = [''<code>'', ''</code>'', ''<b>'', ''</b>'', ''<i>'', ''</i>'', ''<br>'']"

inductive onlyFormatTags :: "string \<Rightarrow> bool" where
  Empty: "onlyFormatTags []"
| Text: "c \<noteq> CHR ''<'' \<Longrightarrow> c \<noteq> CHR ''>'' \<Longrightarrow> onlyFormatTags s \<Longrightarrow> onlyFormatTags (c # s)"
| Tag: "t \<in> set formatTags \<Longrightarrow> onlyFormatTags s \<Longrightarrow> onlyFormatTags (t @ s)"





text \<open>The tool cards among the children of the panel, in order.\<close>

definition cards :: "panel_node list \<Rightarrow> tool_card list" where
  "cards ns = concat (map (\<lambda>n. case n of ToolsEmpty \<Rightarrow> [] | Card c \<Rightarrow> [c]) ns)"

text \<open>
  The bubbles that the entries of a \<^verbatim>\<open>messages\<close> array of a chat response stand for (the
  entries of role assistant or model, in order), and those of a history.
\<close>

definition assistantBubbles :: "message list \<Rightarrow> node list" where
  "assistantBubbles ms =
     map (\<lambda>m. Bubble (makeBubble ''assistant'' (firstTruthy [msg_content m] []) None))
       (filter (\<lambda>m. msg_role m = Some ''assistant'' \<or> msg_role m = Some ''model'') ms)"

definition historyBubbles :: "message list \<Rightarrow> node list" where
  "historyBubbles ms =
     map (\<lambda>m. Bubble (makeBubble (firstTruthy [msg_role m] ''user'') (firstTruthy [msg_content m] [])
                (if truthy (msg_timestamp m) then msg_timestamp m else None))) ms"

text \<open>At most one typing placeholder is among the children of the conversation.\<close>

definition oneTyping :: "page \<Rightarrow> bool" where
  "oneTyping s = (count_list (messagesContent s) Typing \<le> 1)"

text \<open>
  The single-flight guard: at most one chat request is in flight, one is in flight exactly
  when \<^verbatim>\<open>isSending\<close> is set, and then the input and the send button are disabled.
\<close>

definition guarded :: "page \<Rightarrow> bool" where
  "guarded s =
     (inFlight s \<le> 1 \<and> (inFlight s = 1) = isSending s \<and>
      (isSending s \<longrightarrow> inputDisabled s \<and> sendDisabled s))"

definition sending :: "page \<Rightarrow> bool" where
  "sending s = (isSending s \<and> inputDisabled s \<and> sendDisabled s)"

text \<open>The number of chat requests sent so far.\<close>

fun isChatRequest :: "request \<Rightarrow> bool" where
  "isChatRequest (ChatRequest text shown model) = True"
| "isChatRequest HistoryRequest = False"
| "isChatRequest ResetRequest = False"
| "isChatRequest SleepRequest = False"
| "isChatRequest ModelsRequest = False"

definition chatRequests :: "page \<Rightarrow> nat" where
  "chatRequests s = length (filter isChatRequest (requests s))"

text \<open>The events that end a chat request.\<close>

fun isChatSettled :: "event \<Rightarrow> bool" where
  "isChatSettled (ChatSettled r) = True"
| "isChatSettled e = False"

text \<open>A tool record and a chat response with no field, from which examples are built.\<close>

definition emptyTool :: tool_record where
  "emptyTool =
     \<lparr> name = None, tool_name = None, tool = None, status = None, tool_status = None,
       error = None, duration_ms = None, execution_time_ms = None,
       started_at = None, timestamp = None,
       parameters = None, tool_input = None, result = None, tool_output = None \<rparr>"


section \<open>Facts about the text functions\<close>




lemma oft_tag: "t \<in> set formatTags \<Longrightarrow> onlyFormatTags t"
  using Tag [of t "[]"] by (simp add: Empty)






subsection \<open>Escaping\<close>







subsection \<open>Inline code\<close>





subsection \<open>Bold and italic\<close>







subsection \<open>Line breaks\<close>









subsection \<open>Bold on plain text\<close>




subsection \<open>Content without formatting\<close>



section \<open>Facts about the handlers\<close>

lemmas view_defs = appendMessage_def showTyping_def hideTyping_def resetChatUI_def updateTools_def

lemmas handler_defs =
  sendMessage_def sendMessageResumed_def chatReceived_def chatFailed_def chatFinally_def
  loadChatHistory_def loadChatHistoryResumed_def historyReceived_def
  resetClicked_def sleepClicked_def sleepResumed_def sleepFailed_def sleepReload_def
  loadAvailableModels_def loadAvailableModelsResumed_def modelChanged_def
  toggleClicked_def cardClicked_def

lemmas outcome_splits = fetched.splits parsed.splits option.splits

text \<open>The two loops over a \<^verbatim>\<open>messages\<close> array, in closed form.\<close>

lemma foldl_appendAssistant:
  "foldl appendAssistant s ms = s\<lparr> messagesContent := messagesContent s @ assistantBubbles ms \<rparr>"
  by (induction ms arbitrary: s) (simp_all add: appendAssistant_def appendMessage_def assistantBubbles_def)

lemma foldl_appendHistory:
  "welcomeDisplay s = ''none'' \<Longrightarrow>
   foldl appendHistory s ms = s\<lparr> messagesContent := messagesContent s @ historyBubbles ms \<rparr>"
  by (induction ms arbitrary: s) (simp_all add: appendHistory_def appendMessage_def historyBubbles_def)

lemma count_remove1: "count_list (remove1 x xs) x = count_list xs x - 1"
  by (induction xs) auto

lemma count_Typing_bubbles [simp]:
  "count_list (assistantBubbles ms) Typing = 0" "count_list (historyBubbles ms) Typing = 0"
  by (simp_all add: assistantBubbles_def historyBubbles_def count_list_0_iff image_iff)

subsection \<open>The typing placeholder\<close>

lemma oneTyping_showTyping: "oneTyping s \<Longrightarrow> count_list (messagesContent (showTyping s)) Typing = 1"
  unfolding oneTyping_def showTyping_def
  using count_list_0_iff [of "messagesContent s" Typing]
  by (cases "Typing \<in> set (messagesContent s)") auto

lemma oneTyping_apply_op: "oneTyping s \<Longrightarrow> oneTyping (apply_op s op)"
proof (cases op)
  case ShowTyping
  assume "oneTyping s"
  then show ?thesis using oneTyping_showTyping [of s] ShowTyping by (simp add: oneTyping_def)
qed (auto simp: oneTyping_def appendMessage_def hideTyping_def count_remove1 updateTools_def resetChatUI_def)

lemma oneTyping_apply_ops: "oneTyping s \<Longrightarrow> oneTyping (apply_ops ops s)"
  unfolding apply_ops_def by (induction ops arbitrary: s) (simp_all add: oneTyping_apply_op)

lemma oneTyping_step: "oneTyping s \<Longrightarrow> oneTyping (step s e)"
  by (cases e)
     (auto simp: oneTyping_def handler_defs view_defs foldl_appendAssistant foldl_appendHistory Let_def
           count_remove1 count_list_0_iff
           split: outcome_splits)

lemma oneTyping_run: "oneTyping s \<Longrightarrow> oneTyping (run evs s)"
  unfolding run_def by (induction evs arbitrary: s) (simp_all add: oneTyping_step)

lemma oneTyping_initialPage: "oneTyping initialPage"
  by (simp add: oneTyping_def initialPage_def)

subsection \<open>The single-flight guard\<close>

lemma guarded_step: "guarded s \<Longrightarrow> guarded (step s e)"
  by (cases e)
     (auto simp: guarded_def handler_defs view_defs foldl_appendAssistant foldl_appendHistory Let_def
           split: outcome_splits)

lemma guarded_run: "guarded s \<Longrightarrow> guarded (run evs s)"
  unfolding run_def by (induction evs arbitrary: s) (simp_all add: guarded_step)

lemma guarded_initialPage: "guarded initialPage"
  by (simp add: guarded_def initialPage_def)

lemma sending_step:
  "sending s \<Longrightarrow> \<not> isChatSettled e \<Longrightarrow>
   sending (step s e) \<and> chatRequests (step s e) = chatRequests s"
  by (cases e)
     (auto simp: sending_def chatRequests_def handler_defs view_defs foldl_appendAssistant
           foldl_appendHistory Let_def
           split: outcome_splits)

lemma sending_run:
  "sending s \<Longrightarrow> \<forall>e \<in> set evs. \<not> isChatSettled e \<Longrightarrow>
   sending (run evs s) \<and> chatRequests (run evs s) = chatRequests s"
  unfolding run_def
proof (induction evs arbitrary: s)
  case Nil
  then show ?case by simp
next
  case (Cons e evs)
  then have "sending (step s e) \<and> chatRequests (step s e) = chatRequests s"
    by (simp add: sending_step)
  with Cons.IH [of "step s e"] Cons.prems show ?case by simp
qed

lemma sendMessage_first:
  "\<not> isSending s \<Longrightarrow> trim (inputValue s) \<noteq> [] \<Longrightarrow>
   sending (sendMessage s) \<and> chatRequests (sendMessage s) = Suc (chatRequests s)"
  by (simp add: sending_def chatRequests_def sendMessage_def view_defs Let_def)

subsection \<open>The welcome placeholder\<close>

lemma welcome_apply_op:
  "welcomeDisplay s = ''none'' \<Longrightarrow> op \<noteq> Reset \<Longrightarrow> welcomeDisplay (apply_op s op) = ''none''"
  by (cases op) (auto simp: view_defs)

lemma welcome_apply_ops:
  "welcomeDisplay s = ''none'' \<Longrightarrow> Reset \<notin> set ops \<Longrightarrow> welcomeDisplay (apply_ops ops s) = ''none''"
  unfolding apply_ops_def by (induction ops arbitrary: s) (auto simp: welcome_apply_op)

lemma welcome_step:
  "welcomeDisplay s = ''none'' \<Longrightarrow> welcomeDisplay (step s e) \<noteq> ''none'' \<Longrightarrow>
   e = ResetClicked True \<or> e = SleepReloadTimer"
  by (cases e)
     (auto simp: handler_defs view_defs foldl_appendAssistant foldl_appendHistory Let_def
           split: outcome_splits if_splits)

subsection \<open>The two flags of the toggle\<close>

lemma flags_step:
  "e \<noteq> ToggleClicked \<Longrightarrow>
   showToolOutput (step s e) = showToolOutput s \<and> expandAllTools (step s e) = expandAllTools s"
  by (cases e)
     (auto simp: handler_defs view_defs foldl_appendAssistant foldl_appendHistory Let_def
           split: outcome_splits)

lemma flags_toggle:
  "expandAllTools (step s ToggleClicked) = showToolOutput (step s ToggleClicked)"
  by (simp add: toggleClicked_def Let_def)

lemma flags_run:
  "ToggleClicked \<in> set evs \<Longrightarrow> expandAllTools (run evs s) = showToolOutput (run evs s)"
proof (induction evs arbitrary: s rule: rev_induct)
  case Nil
  then show ?case by simp
next
  case (snoc e evs)
  show ?case
  proof (cases "e = ToggleClicked")
    case True
    then show ?thesis using flags_toggle [of "run evs s"] by (simp add: run_def)
  next
    case False
    with snoc.prems have "ToggleClicked \<in> set evs" by simp
    then have "expandAllTools (run evs s) = showToolOutput (run evs s)" by (rule snoc.IH)
    with False show ?thesis
      using flags_step [of e "run evs s"] by (simp add: run_def)
  qed
qed

lemma cards_setDetails:
  "cards (map (setDetails b) ns) =
     map (\<lambda>c. c\<lparr> details_display := (if b then ''block'' else ''none'') \<rparr>) (cards ns)"
  by (induction ns) (auto simp: cards_def split: panel_node.splits)

subsection \<open>Status and rounding\<close>




section \<open>The claims\<close>

subsection \<open>C1: the status shown on a tool card\<close>




subsection \<open>C2: escaping before formatting\<close>



subsection \<open>C3: one chat request at a time\<close>

text \<open>
  Claim C3. In every state that a sequence of events reaches from the initial page, at most
  one chat request is in flight, one is in flight exactly when \<^verbatim>\<open>isSending\<close> is set, and
  then the input and the send button are disabled. \<open>sendMessage\<close> changes nothing when
  \<^verbatim>\<open>isSending\<close> is set or when the trimmed input is empty. When \<open>sendMessage\<close> is called
  with the guard clear and a non-empty input, and called again after any events that do
  not settle the request, exactly one chat request has been sent, and the input and the send
  button are still disabled at the second call.
\<close>

theorem C3_single_flight:
  "inFlight (run evs initialPage) \<le> 1
   \<and> (inFlight (run evs initialPage) = 1) = isSending (run evs initialPage)
   \<and> (isSending (run evs initialPage) \<longrightarrow>
        inputDisabled (run evs initialPage) \<and> sendDisabled (run evs initialPage))
   \<and> (isSending s \<longrightarrow> sendMessage s = s)
   \<and> (trim (inputValue s) = [] \<longrightarrow> sendMessage s = s)
   \<and> (\<not> isSending s \<and> trim (inputValue s) \<noteq> [] \<and> (\<forall>e \<in> set between. \<not> isChatSettled e) \<longrightarrow>
        chatRequests (sendMessage (run between (sendMessage s))) = Suc (chatRequests s)
        \<and> inputDisabled (run between (sendMessage s))
        \<and> sendDisabled (run between (sendMessage s)))"
proof -
  have g: "guarded (run evs initialPage)"
    by (intro guarded_run guarded_initialPage)
  have noop: "isSending s \<longrightarrow> sendMessage s = s" "trim (inputValue s) = [] \<longrightarrow> sendMessage s = s" for s
    by (simp_all add: sendMessage_def)
  have pair: "chatRequests (sendMessage (run between (sendMessage s))) = Suc (chatRequests s)
        \<and> inputDisabled (run between (sendMessage s))
        \<and> sendDisabled (run between (sendMessage s))"
    if a: "\<not> isSending s" "trim (inputValue s) \<noteq> []" "\<forall>e \<in> set between. \<not> isChatSettled e"
  proof -
    from a have first: "sending (sendMessage s)" "chatRequests (sendMessage s) = Suc (chatRequests s)"
      by (simp_all add: sendMessage_first)
    with a(3) have later: "sending (run between (sendMessage s))"
      "chatRequests (run between (sendMessage s)) = Suc (chatRequests s)"
      using sending_run [of "sendMessage s" between] by simp_all
    then have "sendMessage (run between (sendMessage s)) = run between (sendMessage s)"
      using noop(1) by (simp add: sending_def)
    with later show ?thesis by (simp add: sending_def)
  qed
  from g noop pair show ?thesis
    unfolding guarded_def by blast
qed

text \<open>
  After a message is typed and sent, the guard is set, one request is in flight and a
  second call changes nothing; a chip clicked and the toggle clicked in between leave the
  number of chat requests at one.
\<close>

theorem C3_single_flight_witness:
  "isSending (run [InputTyped ''hello'', SendClicked] initialPage)
   \<and> inFlight (run [InputTyped ''hello'', SendClicked] initialPage) = 1
   \<and> inputDisabled (run [InputTyped ''hello'', SendClicked] initialPage)
   \<and> sendMessage (run [InputTyped ''hello'', SendClicked] initialPage)
       = run [InputTyped ''hello'', SendClicked] initialPage
   \<and> chatRequests (sendMessage (run [ChipClicked ''again'', ToggleClicked]
        (sendMessage (initialPage\<lparr> inputValue := ''hello'' \<rparr>)))) = 1"
  using C3_single_flight
    [of "[InputTyped ''hello'', SendClicked]" "run [InputTyped ''hello'', SendClicked] initialPage"
        "[ChipClicked ''again'', ToggleClicked]"]
    C3_single_flight
    [of "[]" "initialPage\<lparr> inputValue := ''hello'' \<rparr>" "[ChipClicked ''again'', ToggleClicked]"]
  by (simp add: run_def initialPage_def sendMessage_def view_defs trim_def isWhiteSpace_def
        chatRequests_def Let_def)

subsection \<open>C4: the cleanup of sendMessage\<close>

text \<open>
  Claim C4. However the request of a \<open>sendMessage\<close> call ends (the fetch rejects, the
  status is outside 200 to 299, the body does not parse, or the body parses), the
  resumption leaves \<^verbatim>\<open>isSending\<close> clear, the input and the send button enabled and the
  focus on the input. The page is ready for the next action: a non-empty text typed and
  sent afterwards sends a request.
\<close>

theorem C4_cleanup:
  "\<not> isSending (sendMessageResumed r s)
   \<and> \<not> inputDisabled (sendMessageResumed r s)
   \<and> \<not> sendDisabled (sendMessageResumed r s)
   \<and> inputFocused (sendMessageResumed r s)
   \<and> (trim v \<noteq> [] \<longrightarrow>
        (\<exists>q. requests (step (step (sendMessageResumed r s) (InputTyped v)) SendClicked)
               = requests s @ [q]))"
  by (simp add: sendMessageResumed_def chatFinally_def sendMessage_def view_defs chatFailed_def
        chatReceived_def foldl_appendAssistant Let_def split: outcome_splits)

text \<open>
  A pending request that ends with status 500, and one whose fetch rejects: before, the
  guard is set and the input disabled; after, both are clear.
\<close>

theorem C4_cleanup_witness:
  "trim ''next'' \<noteq> []
   \<and> \<not> isSending (sendMessageResumed (Response 500 (ParseFailure []))
        (run [InputTyped ''hello'', SendClicked] initialPage))
   \<and> \<not> inputDisabled (sendMessageResumed (NetworkFailure ''Failed to fetch'')
        (run [InputTyped ''hello'', SendClicked] initialPage))
   \<and> isSending (run [InputTyped ''hello'', SendClicked] initialPage)
   \<and> inputDisabled (run [InputTyped ''hello'', SendClicked] initialPage)"
  using C4_cleanup
    [of "Response 500 (ParseFailure [])" "run [InputTyped ''hello'', SendClicked] initialPage" "''next''"]
    C4_cleanup
    [of "NetworkFailure ''Failed to fetch''" "run [InputTyped ''hello'', SendClicked] initialPage" "''next''"]
  by (simp add: run_def initialPage_def sendMessage_def view_defs trim_def isWhiteSpace_def Let_def)

subsection \<open>C5: an error declared by the backend\<close>




subsection \<open>C6: the two flags of the tool-output toggle\<close>

text \<open>
  Claim C6 says that the two flags are equal in every reachable state, the initial one
  included, and that each click flips both. The script initialises \<^verbatim>\<open>showToolOutput\<close> to
  true and \<^verbatim>\<open>expandAllTools\<close> to false, and the first click leaves \<^verbatim>\<open>expandAllTools\<close>
  false.
\<close>

theorem C6_initial_state_counterexample:
  "showToolOutput initialPage = True \<and> expandAllTools initialPage = False
   \<and> expandAllTools (step initialPage ToggleClicked) = expandAllTools initialPage"
  by (simp add: initialPage_def toggleClicked_def)

text \<open>
  Claim C6, amended. Each click of the toggle flips \<^verbatim>\<open>showToolOutput\<close> and sets
  \<^verbatim>\<open>expandAllTools\<close> to the new value; the same click sets the detail blocks of every
  rendered card open or closed after the resulting value, leaves the cards otherwise as
  they are, and sends no request. From the first click on the two flags are equal in every
  state reached, whatever the events before and after it.
\<close>

theorem C6_toggle_coupling:
  "showToolOutput (toggleClicked s) = (\<not> showToolOutput s)
   \<and> expandAllTools (toggleClicked s) = showToolOutput (toggleClicked s)
   \<and> cards (toolsBody (toggleClicked s)) =
       map (\<lambda>c. c\<lparr> details_display := (if expandAllTools (toggleClicked s) then ''block'' else ''none'') \<rparr>)
         (cards (toolsBody s))
   \<and> requests (toggleClicked s) = requests s
   \<and> (ToggleClicked \<in> set evs \<longrightarrow> expandAllTools (run evs s) = showToolOutput (run evs s))"
  using flags_run [of evs s]
  by (simp add: toggleClicked_def Let_def cards_setDetails)

text \<open>
  Two collapsed cards: the second click from the initial page opens both, the first
  leaves them closed.
\<close>

theorem C6_toggle_coupling_witness:
  "ToggleClicked \<in> set [ToggleClicked, SendClicked]
   \<and> expandAllTools (run [ToggleClicked, SendClicked] initialPage)
       = showToolOutput (run [ToggleClicked, SendClicked] initialPage)
   \<and> cards (toolsBody (toggleClicked (toggleClicked (updateTools [emptyTool, emptyTool] initialPage))))
       = [renderTool True emptyTool, renderTool True emptyTool]
   \<and> cards (toolsBody (toggleClicked (updateTools [emptyTool, emptyTool] initialPage)))
       = [renderTool False emptyTool, renderTool False emptyTool]"
  using C6_toggle_coupling [of initialPage "[ToggleClicked, SendClicked]"]
    C6_toggle_coupling [of "toggleClicked (updateTools [emptyTool, emptyTool] initialPage)"]
    C6_toggle_coupling [of "updateTools [emptyTool, emptyTool] initialPage"]
  by (simp add: toggleClicked_def updateTools_def initialPage_def cards_def renderTool_def Let_def)

subsection \<open>C7: the welcome placeholder\<close>

text \<open>
  Claim C7. An append with role user hides the welcome placeholder. Once it is hidden, no
  sequence of appends, \<open>showTyping\<close>, \<open>hideTyping\<close> and tool renders shows it again, and
  the only events after which it is shown again are those that run \<open>resetChatUI\<close>: the
  confirmed reset and the reload after a sleep cycle. \<open>resetChatUI\<close> shows it, leaves it as
  the only child of the conversation and puts the empty-state element back into the tool
  panel.
\<close>

theorem C7_welcome_one_way:
  "welcomeDisplay (appendMessage ''user'' content ts s) = ''none''
   \<and> (welcomeDisplay s = ''none'' \<and> Reset \<notin> set ops \<longrightarrow> welcomeDisplay (apply_ops ops s) = ''none'')
   \<and> (welcomeDisplay s = ''none'' \<and> welcomeDisplay (step s e) \<noteq> ''none'' \<longrightarrow>
        e = ResetClicked True \<or> e = SleepReloadTimer)
   \<and> welcomeDisplay (resetChatUI s) = []
   \<and> messagesContent (resetChatUI s) = [Welcome]
   \<and> toolsBody (resetChatUI s) = [ToolsEmpty]
   \<and> toolsEmptyDisplay (resetChatUI s) = ''block''"
  using welcome_apply_ops [of s ops] welcome_step [of s e]
  by (simp add: appendMessage_def resetChatUI_def)

text \<open>
  After a user message the placeholder is hidden, it stays hidden through four further
  operations, and the confirmed reset shows it.
\<close>

theorem C7_welcome_one_way_witness:
  "welcomeDisplay (apply_ops [Append ''user'' ''hi'' None] initialPage) = ''none''
   \<and> Reset \<notin> set [ShowTyping, Append ''assistant'' ''yo'' None, HideTyping, Render [emptyTool]]
   \<and> welcomeDisplay (apply_ops [ShowTyping, Append ''assistant'' ''yo'' None, HideTyping, Render [emptyTool]]
        (apply_ops [Append ''user'' ''hi'' None] initialPage)) = ''none''
   \<and> welcomeDisplay (step (apply_ops [Append ''user'' ''hi'' None] initialPage) (ResetClicked True)) \<noteq> ''none''"
  using C7_welcome_one_way
    [of "''hi''" None "apply_ops [Append ''user'' ''hi'' None] initialPage"
        "[ShowTyping, Append ''assistant'' ''yo'' None, HideTyping, Render [emptyTool]]"
        "ResetClicked True"]
  by (simp add: apply_ops_def resetClicked_def resetChatUI_def appendMessage_def initialPage_def)

subsection \<open>C8: the typing placeholder\<close>

text \<open>
  Claim C8. \<open>showTyping\<close> is idempotent. After any sequence of view operations, and after
  any sequence of events, from the initial page, two consecutive calls of \<open>showTyping\<close>
  leave exactly one typing placeholder. \<open>hideTyping\<close> leaves a state without a placeholder
  as it is, the initial page in particular.
\<close>

theorem C8_typing_placeholder:
  "showTyping (showTyping s) = showTyping s
   \<and> count_list (messagesContent (showTyping (showTyping (apply_ops ops initialPage)))) Typing = 1
   \<and> count_list (messagesContent (showTyping (showTyping (run evs initialPage)))) Typing = 1
   \<and> (Typing \<notin> set (messagesContent s) \<longrightarrow> hideTyping s = s)
   \<and> hideTyping initialPage = initialPage"
proof -
  have idem: "showTyping (showTyping s) = showTyping s" for s
    by (simp add: showTyping_def)
  have "count_list (messagesContent (showTyping (apply_ops ops initialPage))) Typing = 1"
    by (intro oneTyping_showTyping oneTyping_apply_ops oneTyping_initialPage)
  moreover have "count_list (messagesContent (showTyping (run evs initialPage))) Typing = 1"
    by (intro oneTyping_showTyping oneTyping_run oneTyping_initialPage)
  moreover have "Typing \<notin> set (messagesContent s) \<longrightarrow> hideTyping s = s"
    by (simp add: hideTyping_def)
  moreover have "hideTyping initialPage = initialPage"
    by (simp add: hideTyping_def initialPage_def)
  ultimately show ?thesis by (simp add: idem)
qed

text \<open>
  Two calls after a sequence that already shows, hides and shows the placeholder; and
  \<open>hideTyping\<close> on the page after a reset, which has no placeholder.
\<close>

theorem C8_typing_placeholder_witness:
  "count_list (messagesContent (showTyping (showTyping
      (apply_ops [Append ''user'' ''hi'' None, ShowTyping, HideTyping, ShowTyping] initialPage)))) Typing = 1
   \<and> Typing \<notin> set (messagesContent (resetChatUI initialPage))
   \<and> hideTyping (resetChatUI initialPage) = resetChatUI initialPage"
  using C8_typing_placeholder
    [of "resetChatUI initialPage" "[Append ''user'' ''hi'' None, ShowTyping, HideTyping, ShowTyping]" "[]"]
  by (simp add: resetChatUI_def initialPage_def)

subsection \<open>C9: the metadata line of a tool card\<close>



subsection \<open>C10: a history without messages\<close>

text \<open>
  Claim C10. When the history request resolves with a body whose \<^verbatim>\<open>messages\<close> field is
  absent or an empty array, \<open>loadChatHistory\<close> leaves the page as it is, whatever the
  \<^verbatim>\<open>tool_interactions\<close> field holds: no message is appended, the welcome placeholder
  keeps its display and the tool panel is not rendered.
\<close>

theorem C10_empty_history:
  "hist_messages d = None \<or> hist_messages d = Some [] \<Longrightarrow>
   loadChatHistoryResumed (Response st (Json d)) s = s"
  by (auto simp: loadChatHistoryResumed_def historyReceived_def)

text \<open>
  Two bodies with one tool record and no message, received on the initial page: the page
  is the initial page, with the welcome placeholder shown and the empty-state element in
  the panel.
\<close>

theorem C10_empty_history_witness:
  "hist_messages \<lparr> hist_messages = Some [], hist_tool_interactions = Some [emptyTool] \<rparr> = Some []
   \<and> loadChatHistoryResumed
        (Response 200 (Json \<lparr> hist_messages = Some [], hist_tool_interactions = Some [emptyTool] \<rparr>))
        initialPage = initialPage
   \<and> loadChatHistoryResumed
        (Response 200 (Json \<lparr> hist_messages = None, hist_tool_interactions = Some [emptyTool] \<rparr>))
        initialPage = initialPage
   \<and> welcomeDisplay initialPage = [] \<and> toolsBody initialPage = [ToolsEmpty]"
  using C10_empty_history
    [of "\<lparr> hist_messages = Some [], hist_tool_interactions = Some [emptyTool] \<rparr>" 200 initialPage]
    C10_empty_history
    [of "\<lparr> hist_messages = None, hist_tool_interactions = Some [emptyTool] \<rparr>" 200 initialPage]
  by (simp add: initialPage_def)

end
